theory Spec2Isabelle
  imports Complex_Main "HOL-Library.Sublist"
begin

section \<open>Checkout GraphQL types of saleor: a shallow embedding\<close>

text \<open>
  The development follows \<^verbatim>\<open>saleor/graphql/checkout/types.py\<close>, the export list of
  \<^verbatim>\<open>saleor/graphql/payment/mutations/transaction/__init__.py\<close> and the tests of the
  \<^verbatim>\<open>confirmEmailChange\<close> mutation.

  Conventions.
  \<^item> A Python \<^verbatim>\<open>Decimal\<close> amount is a rational number: sums and differences of
    amounts are exact (the context precision of \<^verbatim>\<open>Decimal\<close>, 28 digits, is far above
    what a money column holds).
  \<^item> A raised exception is the left summand of \<open>error + 'a\<close>.
  \<^item> \<^verbatim>\<open>info.context\<close> carries the dataloaders. A dataloader is the function from its
    key to the value its promise resolves to, so \<^verbatim>\<open>Promise.all(ps).then(f)\<close> is
    \<open>f\<close> applied to the resolved values.
  \<^item> A resolver is the body of its \<^verbatim>\<open>def\<close> under the decorators that change what
    it answers: \<^verbatim>\<open>prevent_sync_event_circular_query\<close> is applied where the source
    applies it. \<^verbatim>\<open>staticmethod\<close>, \<^verbatim>\<open>classmethod\<close> and \<^verbatim>\<open>traced_resolver\<close> bind
    and trace the call and leave its result as it is. The whole stack of every resolver
    is recorded in \<open>decorators\<close>.
\<close>

subsection \<open>Money\<close>

type_synonym decimal = rat

datatype error = ValueError | CircularSubscriptionSyncEvent

text \<open>
  \<^verbatim>\<open>Money\<close> and \<^verbatim>\<open>TaxedMoney\<close> of the \<^verbatim>\<open>prices\<close> package: an amount with its
  currency, and a pair of a net and a gross amount. Comparing, adding or subtracting
  two \<^verbatim>\<open>Money\<close> values of different currencies raises \<^verbatim>\<open>ValueError\<close>; \<^verbatim>\<open>TaxedMoney\<close>
  is ordered by its gross amount.
\<close>

record Money =
  amount :: decimal
  money_currency :: string

record TaxedMoney =
  net :: Money
  gross :: Money

definition money_lt :: "Money \<Rightarrow> Money \<Rightarrow> error + bool" where
  "money_lt a b =
     (if money_currency a \<noteq> money_currency b then Inl ValueError
      else Inr (amount a < amount b))"

definition money_add :: "Money \<Rightarrow> Money \<Rightarrow> error + Money" where
  "money_add a b =
     (if money_currency a \<noteq> money_currency b then Inl ValueError
      else Inr \<lparr>amount = amount a + amount b, money_currency = money_currency a\<rparr>)"

definition money_sub :: "Money \<Rightarrow> Money \<Rightarrow> error + Money" where
  "money_sub a b =
     (if money_currency a \<noteq> money_currency b then Inl ValueError
      else Inr \<lparr>amount = amount a - amount b, money_currency = money_currency a\<rparr>)"

definition taxed_money_lt :: "TaxedMoney \<Rightarrow> TaxedMoney \<Rightarrow> error + bool" where
  "taxed_money_lt a b = money_lt (gross a) (gross b)"

text \<open>
  Python's \<^verbatim>\<open>max(a, b)\<close> keeps \<open>a\<close> unless \<open>b > a\<close>; on \<^verbatim>\<open>TaxedMoney\<close> the test
  \<open>b > a\<close> is answered by \<open>a < b\<close>.
\<close>

definition max_taxed_money :: "TaxedMoney \<Rightarrow> TaxedMoney \<Rightarrow> error + TaxedMoney" where
  "max_taxed_money a b =
     (case taxed_money_lt a b of
        Inl e \<Rightarrow> Inl e
      | Inr smaller \<Rightarrow> Inr (if smaller then b else a))"

text \<open>
  Modelled from the spec: \<^verbatim>\<open>zero_money\<close> and \<^verbatim>\<open>zero_taxed_money\<close> of
  \<^verbatim>\<open>saleor/core/taxes.py\<close> are imported by the checkout types and are not among the
  sources; they are the zero amount, and the taxed amount whose net and gross are zero,
  in the given currency.
\<close>

definition zero_money :: "string \<Rightarrow> Money" where
  "zero_money cur = \<lparr>amount = 0, money_currency = cur\<rparr>"

definition zero_taxed_money :: "string \<Rightarrow> TaxedMoney" where
  "zero_taxed_money cur = \<lparr>net = zero_money cur, gross = zero_money cur\<rparr>"

subsection \<open>Models and the resolver context\<close>

type_synonym token = string

record CheckoutLine =
  pk :: int
  checkout_id :: token
  quantity :: int

record CheckoutLineInfo =
  line :: CheckoutLine

text \<open>
  The fields of \<^verbatim>\<open>models.Checkout\<close> the resolvers read. \<open>checkout_pk\<close> is
  \<^verbatim>\<open>root.pk\<close> of a checkout; an address id is \<^verbatim>\<open>None\<close> or an integer.
\<close>

record Checkout =
  checkout_pk :: token
  token :: token
  currency :: string
  shipping_address_id :: "int option"
  billing_address_id :: "int option"

record TransactionItem =
  amount_charged :: Money
  amount_charge_pending :: Money

text \<open>
  \<^verbatim>\<open>info.context\<close>: the flag \<^verbatim>\<open>sync_event\<close>, set while the fields of the payload
  of a synchronous event are resolved, one field for each dataloader a modelled resolver
  loads from, named after the loader class, and the plugin manager that
  \<^verbatim>\<open>get_plugin_manager_promise\<close> resolves to.
\<close>

record ('addr, 'ci, 'mgr) ResolveInfo =
  sync_event :: bool
  AddressByIdLoader :: "int \<Rightarrow> 'addr"
  CheckoutByTokenLoader :: "token \<Rightarrow> Checkout"
  CheckoutLinesInfoByCheckoutTokenLoader :: "token \<Rightarrow> CheckoutLineInfo list"
  CheckoutInfoByCheckoutTokenLoader :: "token \<Rightarrow> 'ci"
  TransactionItemsByCheckoutIDLoader :: "token \<Rightarrow> TransactionItem list"
  get_plugin_manager_promise :: "'mgr"

text \<open>
  Modelled from the spec: the decorator \<^verbatim>\<open>prevent_sync_event_circular_query\<close> of
  \<^verbatim>\<open>saleor/graphql/checkout/utils.py\<close> is imported by the checkout types and is not
  among the sources. It keeps a synchronous call of a tax or price provider from
  re-entering field resolution: the wrapped resolver raises
  \<^verbatim>\<open>CircularSubscriptionSyncEvent\<close> when the field is resolved for the payload of a
  synchronous event, and otherwise answers as the function it wraps.
\<close>

definition prevent_sync_event_circular_query_wrapper ::
  "('r \<Rightarrow> ('addr, 'ci, 'mgr) ResolveInfo \<Rightarrow> error + 'v)
   \<Rightarrow> 'r \<Rightarrow> ('addr, 'ci, 'mgr) ResolveInfo \<Rightarrow> error + 'v" where
  "prevent_sync_event_circular_query_wrapper func root' info =
     (if sync_event info then Inl CircularSubscriptionSyncEvent else func root' info)"

subsection \<open>Checkout.resolve_quantity\<close>

text \<open>
  Python's \<^verbatim>\<open>sum(xs)\<close>: the accumulator starts at 0 and takes the items from left to
  right.
\<close>

fun sum_loop :: "int \<Rightarrow> int list \<Rightarrow> int" where
  "sum_loop acc [] = acc"
| "sum_loop acc (x # xs) = sum_loop (acc + x) xs"

definition py_sum :: "int list \<Rightarrow> int" where
  "py_sum xs = sum_loop 0 xs"

definition calculate_quantity :: "CheckoutLineInfo list \<Rightarrow> int" where
  "calculate_quantity lines = py_sum (map (\<lambda>line_info. quantity (line line_info)) lines)"

definition resolve_quantity :: "Checkout \<Rightarrow> ('addr, 'ci, 'mgr) ResolveInfo \<Rightarrow> int" where
  "resolve_quantity root' info =
     calculate_quantity (CheckoutLinesInfoByCheckoutTokenLoader info (token root'))"

subsection \<open>The exports of the payment-transaction mutations package\<close>

text \<open>
  \<^verbatim>\<open>transaction/__init__.py\<close>: the \<^verbatim>\<open>from .module import Name\<close> statements in order,
  as pairs of module and bound name, and the list assigned to \<^verbatim>\<open>__all__\<close>.
\<close>

definition transaction_imports :: "(string \<times> string) list" where
  "transaction_imports =
     [(''transaction_create'', ''TransactionCreate''),
      (''transaction_event_report'', ''TransactionEventReport''),
      (''transaction_initialize'', ''TransactionInitialize''),
      (''transaction_process'', ''TransactionProcess''),
      (''transaction_request_action'', ''TransactionRequestAction''),
      (''transaction_update'', ''TransactionUpdate'')]"

definition transaction_all :: "string list" where
  "transaction_all =
     [''TransactionCreate'',
      ''TransactionEventReport'',
      ''TransactionInitialize'',
      ''TransactionProcess'',
      ''TransactionRequestAction'',
      ''TransactionUpdate'']"

definition bound_names :: "(string \<times> string) list \<Rightarrow> string list" where
  "bound_names imports_list = map snd imports_list"

subsection \<open>get_dataloaders_for_fetching_checkout_data\<close>

text \<open>
  Python truth of an optional integer: \<^verbatim>\<open>None\<close> and 0 are false. \<open>x or y\<close> is
  \<open>x\<close> when \<open>x\<close> is true and \<open>y\<close> otherwise.
\<close>

definition truthy :: "int option \<Rightarrow> bool" where
  "truthy x = (case x of None \<Rightarrow> False | Some i \<Rightarrow> i \<noteq> 0)"

definition py_or :: "int option \<Rightarrow> int option \<Rightarrow> int option" where
  "py_or x y = (if truthy x then x else y)"

text \<open>
  The four promises, resolved: the address (\<^verbatim>\<open>None\<close> when \<open>address_id\<close> is false),
  the lines, the checkout info and the plugin manager.
\<close>

definition get_dataloaders_for_fetching_checkout_data ::
  "Checkout \<Rightarrow> ('addr, 'ci, 'mgr) ResolveInfo
   \<Rightarrow> 'addr option \<times> CheckoutLineInfo list \<times> 'ci \<times> 'mgr" where
  "get_dataloaders_for_fetching_checkout_data root' info =
     (let address_id = py_or (shipping_address_id root') (billing_address_id root');
          address = (case address_id of
                       None \<Rightarrow> None
                     | Some i \<Rightarrow> if i \<noteq> 0 then Some (AddressByIdLoader info i) else None);
          lines = CheckoutLinesInfoByCheckoutTokenLoader info (token root');
          checkout_info = CheckoutInfoByCheckoutTokenLoader info (token root');
          manager = get_plugin_manager_promise info
      in (address, lines, checkout_info, manager))"

subsection \<open>The price resolvers of CheckoutLine\<close>

text \<open>
  The loop shared by the four resolvers:
  \<^verbatim>\<open>for line_info in lines: if line_info.line.pk == root.pk: return f(line_info)\<close>,
  then \<^verbatim>\<open>return None\<close>.
\<close>

fun for_line_info :: "(CheckoutLineInfo \<Rightarrow> 'p) \<Rightarrow> int \<Rightarrow> CheckoutLineInfo list \<Rightarrow> 'p option" where
  "for_line_info f root_pk [] = None"
| "for_line_info f root_pk (line_info # rest) =
     (if pk (line line_info) = root_pk then Some (f line_info)
      else for_line_info f root_pk rest)"

text \<open>
  The functions of \<^verbatim>\<open>saleor/checkout/calculations.py\<close> and
  \<^verbatim>\<open>base_calculations.py\<close> are not among the sources: every resolver takes the one it
  calls as its first argument, and \<open>channel\<close> stands for \<^verbatim>\<open>checkout_info.channel\<close>.
  \<^verbatim>\<open>CheckoutLine.resolve_total_price\<close> is \<open>resolve_line_total_price\<close> here, to keep
  it apart from \<^verbatim>\<open>Checkout.resolve_total_price\<close>. \<^verbatim>\<open>resolve_unit_price\<close> and
  \<^verbatim>\<open>resolve_total_price\<close> are decorated with \<^verbatim>\<open>prevent_sync_event_circular_query\<close>;
  the two undiscounted resolvers are not.
\<close>

definition resolve_unit_price ::
  "('mgr \<Rightarrow> 'ci \<Rightarrow> CheckoutLineInfo list \<Rightarrow> CheckoutLineInfo \<Rightarrow> TaxedMoney)
   \<Rightarrow> CheckoutLine \<Rightarrow> ('addr, 'ci, 'mgr) ResolveInfo
   \<Rightarrow> error + TaxedMoney option" where
  "resolve_unit_price checkout_line_unit_price =
     prevent_sync_event_circular_query_wrapper
       (\<lambda>root' info.
          let checkout = CheckoutByTokenLoader info (checkout_id root');
              manager = get_plugin_manager_promise info;
              checkout_info = CheckoutInfoByCheckoutTokenLoader info (token checkout);
              lines = CheckoutLinesInfoByCheckoutTokenLoader info (token checkout)
          in Inr (for_line_info (checkout_line_unit_price manager checkout_info lines)
                    (pk root') lines))"

definition resolve_undiscounted_unit_price ::
  "(CheckoutLineInfo \<Rightarrow> 'ch \<Rightarrow> Money) \<Rightarrow> ('ci \<Rightarrow> 'ch)
   \<Rightarrow> CheckoutLine \<Rightarrow> ('addr, 'ci, 'mgr) ResolveInfo \<Rightarrow> Money option" where
  "resolve_undiscounted_unit_price calculate_undiscounted_base_line_unit_price channel
       root' info =
     (let checkout = CheckoutByTokenLoader info (checkout_id root');
          checkout_info = CheckoutInfoByCheckoutTokenLoader info (token checkout);
          lines = CheckoutLinesInfoByCheckoutTokenLoader info (token checkout)
      in for_line_info
           (\<lambda>line_info. calculate_undiscounted_base_line_unit_price line_info
              (channel checkout_info))
           (pk root') lines)"

definition resolve_line_total_price ::
  "('mgr \<Rightarrow> 'ci \<Rightarrow> CheckoutLineInfo list \<Rightarrow> CheckoutLineInfo \<Rightarrow> TaxedMoney)
   \<Rightarrow> CheckoutLine \<Rightarrow> ('addr, 'ci, 'mgr) ResolveInfo
   \<Rightarrow> error + TaxedMoney option" where
  "resolve_line_total_price checkout_line_total =
     prevent_sync_event_circular_query_wrapper
       (\<lambda>root' info.
          let checkout = CheckoutByTokenLoader info (checkout_id root');
              manager = get_plugin_manager_promise info;
              checkout_info = CheckoutInfoByCheckoutTokenLoader info (token checkout);
              lines = CheckoutLinesInfoByCheckoutTokenLoader info (token checkout)
          in Inr (for_line_info (checkout_line_total manager checkout_info lines)
                    (pk root') lines))"

definition resolve_undiscounted_total_price ::
  "(CheckoutLineInfo \<Rightarrow> 'ch \<Rightarrow> Money) \<Rightarrow> ('ci \<Rightarrow> 'ch)
   \<Rightarrow> CheckoutLine \<Rightarrow> ('addr, 'ci, 'mgr) ResolveInfo \<Rightarrow> Money option" where
  "resolve_undiscounted_total_price calculate_undiscounted_base_line_total_price channel
       root' info =
     (let checkout = CheckoutByTokenLoader info (checkout_id root');
          checkout_info = CheckoutInfoByCheckoutTokenLoader info (token checkout);
          lines = CheckoutLinesInfoByCheckoutTokenLoader info (token checkout)
      in for_line_info
           (\<lambda>line_info. calculate_undiscounted_base_line_total_price line_info
              (channel checkout_info))
           (pk root') lines)"

text \<open>
  The fields that \<^verbatim>\<open>class CheckoutLine\<close> declares, each with its \<^verbatim>\<open>required\<close>
  argument.
\<close>

definition checkout_line_fields :: "(string \<times> bool) list" where
  "checkout_line_fields =
     [(''id'', True),
      (''variant'', True),
      (''quantity'', True),
      (''unit_price'', True),
      (''undiscounted_unit_price'', True),
      (''total_price'', True),
      (''undiscounted_total_price'', True),
      (''requires_shipping'', True)]"

definition field_required :: "(string \<times> bool) list \<Rightarrow> string \<Rightarrow> bool" where
  "field_required declared name = (map_of declared name = Some True)"

subsection \<open>Checkout.resolve_total_price and Checkout.resolve_total_balance\<close>

text \<open>
  \<^verbatim>\<open>resolve_total_price\<close> is decorated with \<^verbatim>\<open>prevent_sync_event_circular_query\<close>;
  \<^verbatim>\<open>resolve_total_balance\<close> is a plain \<^verbatim>\<open>classmethod\<close>.
\<close>

definition resolve_total_price ::
  "('mgr \<Rightarrow> 'ci \<Rightarrow> CheckoutLineInfo list \<Rightarrow> 'addr option \<Rightarrow> TaxedMoney)
   \<Rightarrow> Checkout \<Rightarrow> ('addr, 'ci, 'mgr) ResolveInfo \<Rightarrow> error + TaxedMoney" where
  "resolve_total_price calculate_checkout_total_with_gift_cards =
     prevent_sync_event_circular_query_wrapper
       (\<lambda>root' info.
          case get_dataloaders_for_fetching_checkout_data root' info of
            (address, lines, checkout_info, manager) \<Rightarrow>
              (let taxed_total =
                     calculate_checkout_total_with_gift_cards manager checkout_info lines
                       address
               in max_taxed_money taxed_total (zero_taxed_money (currency root'))))"

text \<open>
  The loop of \<^verbatim>\<open>_calculate_total_balance_for_transactions\<close>: two \<^verbatim>\<open>+=\<close> for every
  transaction, each of which raises when the currencies differ.
\<close>

fun total_charged_loop :: "Money \<Rightarrow> TransactionItem list \<Rightarrow> error + Money" where
  "total_charged_loop total_charged [] = Inr total_charged"
| "total_charged_loop total_charged (transaction # rest) =
     (case money_add total_charged (amount_charged transaction) of
        Inl e \<Rightarrow> Inl e
      | Inr charged \<Rightarrow>
          (case money_add charged (amount_charge_pending transaction) of
             Inl e \<Rightarrow> Inl e
           | Inr with_pending \<Rightarrow> total_charged_loop with_pending rest))"

definition resolve_total_balance ::
  "('mgr \<Rightarrow> 'ci \<Rightarrow> CheckoutLineInfo list \<Rightarrow> 'addr option \<Rightarrow> TaxedMoney)
   \<Rightarrow> Checkout \<Rightarrow> ('addr, 'ci, 'mgr) ResolveInfo \<Rightarrow> error + Money" where
  "resolve_total_balance calculate_checkout_total_with_gift_cards root' info =
     (case get_dataloaders_for_fetching_checkout_data root' info of
        (address, lines, checkout_info, manager) \<Rightarrow>
          (let transactions = TransactionItemsByCheckoutIDLoader info (checkout_pk root');
               taxed_total =
                 calculate_checkout_total_with_gift_cards manager checkout_info lines address
           in case max_taxed_money taxed_total (zero_taxed_money (currency root')) of
                Inl e \<Rightarrow> Inl e
              | Inr checkout_total \<Rightarrow>
                  (case total_charged_loop (zero_money (currency root')) transactions of
                     Inl e \<Rightarrow> Inl e
                   | Inr total_charged \<Rightarrow> money_sub total_charged (gross checkout_total))))"

subsection \<open>The decorators of the resolvers\<close>

datatype decorator =
  staticmethod
| classmethod
| traced_resolver
| prevent_sync_event_circular_query
| plugin_manager_promise_callback

datatype resolver =
  CheckoutLine_resolve_unit_price
| CheckoutLine_resolve_undiscounted_unit_price
| CheckoutLine_resolve_total_price
| CheckoutLine_resolve_undiscounted_total_price
| Checkout_resolve_shipping_methods
| Checkout_resolve_quantity
| Checkout_resolve_total_price
| Checkout_resolve_subtotal_price
| Checkout_resolve_shipping_price
| Checkout_resolve_available_shipping_methods
| Checkout_resolve_available_payment_gateways
| Checkout_resolve_authorize_status
| Checkout_resolve_charge_status
| Checkout_resolve_total_balance

text \<open>The decorator lines above each \<^verbatim>\<open>def\<close>, from the top one down.\<close>

fun decorators :: "resolver \<Rightarrow> decorator list" where
  "decorators CheckoutLine_resolve_unit_price =
     [staticmethod, prevent_sync_event_circular_query]"
| "decorators CheckoutLine_resolve_undiscounted_unit_price = [staticmethod]"
| "decorators CheckoutLine_resolve_total_price =
     [staticmethod, traced_resolver, prevent_sync_event_circular_query]"
| "decorators CheckoutLine_resolve_undiscounted_total_price = [staticmethod]"
| "decorators Checkout_resolve_shipping_methods =
     [classmethod, traced_resolver, prevent_sync_event_circular_query]"
| "decorators Checkout_resolve_quantity = [staticmethod]"
| "decorators Checkout_resolve_total_price =
     [staticmethod, traced_resolver, prevent_sync_event_circular_query]"
| "decorators Checkout_resolve_subtotal_price =
     [staticmethod, traced_resolver, prevent_sync_event_circular_query]"
| "decorators Checkout_resolve_shipping_price =
     [staticmethod, traced_resolver, prevent_sync_event_circular_query]"
| "decorators Checkout_resolve_available_shipping_methods =
     [staticmethod, traced_resolver, prevent_sync_event_circular_query]"
| "decorators Checkout_resolve_available_payment_gateways =
     [staticmethod, prevent_sync_event_circular_query, plugin_manager_promise_callback]"
| "decorators Checkout_resolve_authorize_status = [classmethod]"
| "decorators Checkout_resolve_charge_status = [classmethod]"
| "decorators Checkout_resolve_total_balance = [classmethod]"

text \<open>
  What the body of each resolver calls or reads to get its result from the pricing and
  tax calculation engine (nothing for a resolver that does not reach it).
\<close>

datatype engine_call =
  calculations_checkout_line_unit_price
| calculations_checkout_line_total
| calculations_calculate_checkout_total_with_gift_cards
| calculations_checkout_subtotal
| calculations_checkout_shipping_price
| calculations_fetch_checkout_data
| checkout_info_all_shipping_methods
| checkout_info_valid_shipping_methods
| manager_list_payment_gateways

fun engine_calls :: "resolver \<Rightarrow> engine_call list" where
  "engine_calls CheckoutLine_resolve_unit_price = [calculations_checkout_line_unit_price]"
| "engine_calls CheckoutLine_resolve_undiscounted_unit_price = []"
| "engine_calls CheckoutLine_resolve_total_price = [calculations_checkout_line_total]"
| "engine_calls CheckoutLine_resolve_undiscounted_total_price = []"
| "engine_calls Checkout_resolve_shipping_methods = [checkout_info_all_shipping_methods]"
| "engine_calls Checkout_resolve_quantity = []"
| "engine_calls Checkout_resolve_total_price =
     [calculations_calculate_checkout_total_with_gift_cards]"
| "engine_calls Checkout_resolve_subtotal_price = [calculations_checkout_subtotal]"
| "engine_calls Checkout_resolve_shipping_price = [calculations_checkout_shipping_price]"
| "engine_calls Checkout_resolve_available_shipping_methods =
     [checkout_info_valid_shipping_methods]"
| "engine_calls Checkout_resolve_available_payment_gateways =
     [manager_list_payment_gateways]"
| "engine_calls Checkout_resolve_authorize_status = [calculations_fetch_checkout_data]"
| "engine_calls Checkout_resolve_charge_status = [calculations_fetch_checkout_data]"
| "engine_calls Checkout_resolve_total_balance =
     [calculations_calculate_checkout_total_with_gift_cards]"

definition guarded :: "resolver \<Rightarrow> bool" where
  "guarded r = (prevent_sync_event_circular_query \<in> set (decorators r))"

text \<open>The ten resolvers that claim C3 lists.\<close>

definition listed_resolvers :: "resolver list" where
  "listed_resolvers =
     [CheckoutLine_resolve_unit_price,
      CheckoutLine_resolve_total_price,
      Checkout_resolve_total_price,
      Checkout_resolve_subtotal_price,
      Checkout_resolve_shipping_price,
      Checkout_resolve_shipping_methods,
      Checkout_resolve_available_shipping_methods,
      Checkout_resolve_available_payment_gateways,
      Checkout_resolve_authorize_status,
      Checkout_resolve_charge_status]"

subsection \<open>The confirmEmailChange mutation\<close>

text \<open>
  Modelled from the spec: the mutation class \<^verbatim>\<open>ConfirmEmailChange\<close>
  (\<^verbatim>\<open>saleor/graphql/account/mutations/account/confirm_email_change.py\<close>), the token
  functions of \<^verbatim>\<open>saleor/core/jwt.py\<close> and the user model are not among the sources;
  only the tests of the mutation are. The records hold what the tests build and read: a
  user, the payload of the token with the time it expires at, an error of the response,
  the response, and the database together with the calls that the two patched functions
  \<^verbatim>\<open>assign_user_gift_cards\<close> and \<^verbatim>\<open>match_orders_with_new_user\<close> receive.
\<close>

record User =
  user_pk :: int
  email :: string
  first_name :: string
  last_name :: string
  search_document :: string

record EmailChangePayload =
  old_email :: string
  new_email :: string
  payload_user_pk :: int

record Token =
  payload :: EmailChangePayload
  exp_claim :: nat

record AccountError =
  code :: string
  message :: string
  field :: string

record ConfirmEmailChange =
  user :: "User option"
  errors :: "AccountError list"

record Database =
  users :: "User list"
  assign_user_gift_cards_calls :: "User list"
  match_orders_with_new_user_calls :: "User list"

text \<open>
  Modelled from the spec: \<^verbatim>\<open>create_token(payload, exp_delta)\<close>, absent from the
  sources, gives a token that carries the payload and expires \<open>exp_delta\<close> after the
  time it is made at; decoding it gives the payload back until then.
\<close>

definition create_token :: "EmailChangePayload \<Rightarrow> nat \<Rightarrow> nat \<Rightarrow> Token" where
  "create_token token_payload exp_delta now =
     \<lparr>payload = token_payload, exp_claim = now + exp_delta\<rparr>"

definition jwt_decode :: "nat \<Rightarrow> Token \<Rightarrow> EmailChangePayload option" where
  "jwt_decode now tok = (if now < exp_claim tok then Some (payload tok) else None)"

text \<open>
  Modelled from the spec: the builder of the user's search document, absent from the
  sources. The test reads that the new e-mail is in the stored document; the document is
  the e-mail and the names, one to a line.
\<close>

definition prepare_user_search_document_value :: "User \<Rightarrow> string" where
  "prepare_user_search_document_value u =
     email u @ [CHR 0x0A] @ first_name u @ [CHR 0x0A] @ last_name u @ [CHR 0x0A]"

definition email_used_by_other_user :: "User list \<Rightarrow> int \<Rightarrow> string \<Rightarrow> bool" where
  "email_used_by_other_user us requester addr =
     list_ex (\<lambda>u. user_pk u \<noteq> requester \<and> email u = addr) us"

definition unique_email_error :: AccountError where
  "unique_email_error =
     \<lparr>code = ''UNIQUE'', message = ''Email is used by other user.'', field = ''newEmail''\<rparr>"

text \<open>
  Modelled from the spec: \<^verbatim>\<open>confirmEmailChange(token)\<close> called by the user whose key
  is \<open>requester\<close> at the time \<open>now\<close>, absent from the sources. With a token that
  decodes to a payload for the requesting user it answers as the two tests say: when the
  new e-mail is the e-mail of another user, no user and the error \<^verbatim>\<open>UNIQUE\<close> on
  \<^verbatim>\<open>newEmail\<close>, and nothing is stored; otherwise the user gets the new e-mail and a
  search document rebuilt from it, is stored, is returned, and is passed once to each of
  \<^verbatim>\<open>assign_user_gift_cards\<close> and \<^verbatim>\<open>match_orders_with_new_user\<close>. \<open>None\<close> stands
  for the calls the tests say nothing about (an expired token, a token made for another
  user or another old e-mail, a requester the database does not hold).
\<close>

definition confirm_email_change ::
  "Database \<Rightarrow> int \<Rightarrow> nat \<Rightarrow> Token \<Rightarrow> (ConfirmEmailChange \<times> Database) option" where
  "confirm_email_change db requester now tok =
     (case jwt_decode now tok of
        None \<Rightarrow> None
      | Some p \<Rightarrow>
          (case find (\<lambda>u. user_pk u = requester) (users db) of
             None \<Rightarrow> None
           | Some u \<Rightarrow>
               if payload_user_pk p \<noteq> requester \<or> old_email p \<noteq> email u then None
               else if email_used_by_other_user (users db) requester (new_email p)
               then Some (\<lparr>user = None, errors = [unique_email_error]\<rparr>, db)
               else
                 (let changed = u\<lparr>email := new_email p\<rparr>;
                      saved = changed\<lparr>search_document :=
                                prepare_user_search_document_value changed\<rparr>
                  in Some
                       (\<lparr>user = Some saved, errors = []\<rparr>,
                        db\<lparr>users :=
                              map (\<lambda>v. if user_pk v = requester then saved else v) (users db),
                            assign_user_gift_cards_calls :=
                              assign_user_gift_cards_calls db @ [saved],
                            match_orders_with_new_user_calls :=
                              match_orders_with_new_user_calls db @ [saved]\<rparr>))))"

subsection \<open>Sample data\<close>

text \<open>
  A checkout in US dollars with a billing address only, two lines, one transaction, and
  a calculation engine that prices every unit at 4 net and 5 gross and takes a gift card
  of 30 off the total.
\<close>

definition usd :: "decimal \<Rightarrow> Money" where
  "usd a = \<lparr>amount = a, money_currency = ''USD''\<rparr>"

definition sample_checkout :: Checkout where
  "sample_checkout =
     \<lparr>checkout_pk = ''c0ffee'', token = ''c0ffee'', currency = ''USD'',
      shipping_address_id = None, billing_address_id = Some 7\<rparr>"

definition sample_line :: CheckoutLine where
  "sample_line = \<lparr>pk = 12, checkout_id = ''c0ffee'', quantity = 3\<rparr>"

definition sample_lines :: "CheckoutLineInfo list" where
  "sample_lines =
     [\<lparr>line = \<lparr>pk = 11, checkout_id = ''c0ffee'', quantity = 2\<rparr>\<rparr>,
      \<lparr>line = sample_line\<rparr>]"

definition sample_transactions :: "TransactionItem list" where
  "sample_transactions =
     [\<lparr>amount_charged = usd 10, amount_charge_pending = usd 5\<rparr>]"

definition sample_info :: "(string, unit, unit) ResolveInfo" where
  "sample_info =
     \<lparr>sync_event = False,
      AddressByIdLoader = (\<lambda>i. if i = 7 then ''billing'' else ''other''),
      CheckoutByTokenLoader = (\<lambda>t. sample_checkout),
      CheckoutLinesInfoByCheckoutTokenLoader =
        (\<lambda>t. if t = ''c0ffee'' then sample_lines else []),
      CheckoutInfoByCheckoutTokenLoader = (\<lambda>t. ()),
      TransactionItemsByCheckoutIDLoader =
        (\<lambda>t. if t = ''c0ffee'' then sample_transactions else []),
      get_plugin_manager_promise = ()\<rparr>"

definition sample_line_price ::
  "unit \<Rightarrow> unit \<Rightarrow> CheckoutLineInfo list \<Rightarrow> CheckoutLineInfo \<Rightarrow> TaxedMoney" where
  "sample_line_price manager checkout_info lines line_info =
     \<lparr>net = usd (4 * of_int (quantity (line line_info))),
      gross = usd (5 * of_int (quantity (line line_info)))\<rparr>"

definition sample_undiscounted :: "CheckoutLineInfo \<Rightarrow> unit \<Rightarrow> Money" where
  "sample_undiscounted line_info channel = usd (6 * of_int (quantity (line line_info)))"

definition sample_total ::
  "unit \<Rightarrow> unit \<Rightarrow> CheckoutLineInfo list \<Rightarrow> string option \<Rightarrow> TaxedMoney" where
  "sample_total manager checkout_info lines address =
     \<lparr>net = usd (4 * of_int (calculate_quantity lines) - 30),
      gross = usd (5 * of_int (calculate_quantity lines) - 30)\<rparr>"

text \<open>
  The same engine without the gift card, with 2 net and 3 gross of shipping when there
  is an address to ship to.
\<close>

definition sample_total_shipped ::
  "unit \<Rightarrow> unit \<Rightarrow> CheckoutLineInfo list \<Rightarrow> string option \<Rightarrow> TaxedMoney" where
  "sample_total_shipped manager checkout_info lines address =
     \<lparr>net = usd (4 * of_int (calculate_quantity lines)
                  + (case address of None \<Rightarrow> 0 | Some a \<Rightarrow> 2)),
      gross = usd (5 * of_int (calculate_quantity lines)
                  + (case address of None \<Rightarrow> 0 | Some a \<Rightarrow> 3))\<rparr>"

text \<open>The two users of the tests and tokens made at time 100 for one hour.\<close>

definition customer_user :: User where
  "customer_user =
     \<lparr>user_pk = 1, email = ''customer@example.com'', first_name = ''Leslie'',
      last_name = ''Wade'', search_document = []\<rparr>"

definition staff_user :: User where
  "staff_user =
     \<lparr>user_pk = 2, email = ''staff@example.com'', first_name = ''Staff'',
      last_name = ''User'', search_document = []\<rparr>"

definition sample_database :: Database where
  "sample_database =
     \<lparr>users = [customer_user, staff_user], assign_user_gift_cards_calls = [],
      match_orders_with_new_user_calls = []\<rparr>"

definition token_new_email :: Token where
  "token_new_email =
     create_token
       \<lparr>old_email = ''customer@example.com'', new_email = ''new_email@example.com'',
        payload_user_pk = 1\<rparr> 3600 100"

definition token_existing_email :: Token where
  "token_existing_email =
     create_token
       \<lparr>old_email = ''customer@example.com'', new_email = ''staff@example.com'',
        payload_user_pk = 1\<rparr> 3600 100"

section \<open>Properties\<close>

subsection \<open>Quantity\<close>

lemma sum_loop_sum_list: "sum_loop acc xs = acc + sum_list xs"
  by (induction xs arbitrary: acc) simp_all

text \<open>
  C10. \<^verbatim>\<open>Checkout.resolve_quantity\<close> returns the sum of the quantities of the lines
  that the lines-info loader gives for the checkout's token, and 0 when that list is
  empty.
\<close>

theorem resolve_quantity_sum:
  "resolve_quantity root' info =
     (\<Sum>line_info \<leftarrow> CheckoutLinesInfoByCheckoutTokenLoader info (token root').
        quantity (line line_info))
   \<and> (CheckoutLinesInfoByCheckoutTokenLoader info (token root') = []
        \<longrightarrow> resolve_quantity root' info = 0)"
  by (simp add: resolve_quantity_def calculate_quantity_def py_sum_def sum_loop_sum_list)

theorem resolve_quantity_sum_witness:
  "CheckoutLinesInfoByCheckoutTokenLoader sample_info
      (token (sample_checkout\<lparr>token := ''empty''\<rparr>)) = []
   \<and> resolve_quantity (sample_checkout\<lparr>token := ''empty''\<rparr>) sample_info = 0
   \<and> resolve_quantity sample_checkout sample_info = 5"
proof -
  have empty: "CheckoutLinesInfoByCheckoutTokenLoader sample_info
      (token (sample_checkout\<lparr>token := ''empty''\<rparr>)) = []"
    by (simp add: sample_info_def)
  have full: "CheckoutLinesInfoByCheckoutTokenLoader sample_info (token sample_checkout) =
      sample_lines"
    by (simp add: sample_info_def sample_checkout_def)
  from resolve_quantity_sum [of "sample_checkout\<lparr>token := ''empty''\<rparr>" sample_info] empty
  have zero: "resolve_quantity (sample_checkout\<lparr>token := ''empty''\<rparr>) sample_info = 0"
    by simp
  from resolve_quantity_sum [of sample_checkout sample_info]
  have "resolve_quantity sample_checkout sample_info = 5"
    unfolding full by (simp add: sample_lines_def sample_line_def)
  with empty zero show ?thesis by simp
qed

subsection \<open>Exports\<close>

text \<open>
  C9. The package exports exactly the six transaction mutation classes: \<^verbatim>\<open>__all__\<close>
  lists six distinct names, every one of them is bound by an import of the module, and
  the imported names and the listed names are the same set.
\<close>

theorem transaction_all_exports:
  "set transaction_all =
     {''TransactionCreate'', ''TransactionEventReport'', ''TransactionInitialize'',
      ''TransactionProcess'', ''TransactionRequestAction'', ''TransactionUpdate''}
   \<and> length transaction_all = 6
   \<and> distinct transaction_all
   \<and> list_all (\<lambda>n. n \<in> set (bound_names transaction_imports)) transaction_all
   \<and> set (bound_names transaction_imports) = set transaction_all"
  by (simp add: transaction_all_def transaction_imports_def bound_names_def)

subsection \<open>The address of the calculations\<close>

text \<open>
  C5. \<^verbatim>\<open>get_dataloaders_for_fetching_checkout_data\<close> gives the address loaded for
  \<^verbatim>\<open>shipping_address_id\<close> when that id is true in Python's sense, otherwise the one
  loaded for \<^verbatim>\<open>billing_address_id\<close> when that id is true, otherwise \<^verbatim>\<open>None\<close>; the
  lines, the checkout info and the plugin manager are given in every case. A key that
  the database assigns is never 0, and for ids other than 0 an id is true exactly when
  it is set: the shipping address when its id is set, otherwise the billing address
  when its id is set, otherwise \<^verbatim>\<open>None\<close>.
\<close>

theorem get_dataloaders_address:
  "get_dataloaders_for_fetching_checkout_data root' info =
     ((if truthy (shipping_address_id root')
       then map_option (AddressByIdLoader info) (shipping_address_id root')
       else if truthy (billing_address_id root')
       then map_option (AddressByIdLoader info) (billing_address_id root')
       else None),
      CheckoutLinesInfoByCheckoutTokenLoader info (token root'),
      CheckoutInfoByCheckoutTokenLoader info (token root'),
      get_plugin_manager_promise info)
   \<and> (shipping_address_id root' \<noteq> Some 0 \<and> billing_address_id root' \<noteq> Some 0 \<longrightarrow>
        fst (get_dataloaders_for_fetching_checkout_data root' info) =
          (case shipping_address_id root' of
             Some i \<Rightarrow> Some (AddressByIdLoader info i)
           | None \<Rightarrow>
               (case billing_address_id root' of
                  Some j \<Rightarrow> Some (AddressByIdLoader info j)
                | None \<Rightarrow> None)))"
  by (auto simp: get_dataloaders_for_fetching_checkout_data_def py_or_def truthy_def Let_def
      split: option.splits)

theorem get_dataloaders_address_witness:
  "shipping_address_id sample_checkout \<noteq> Some 0
   \<and> billing_address_id sample_checkout \<noteq> Some 0
   \<and> fst (get_dataloaders_for_fetching_checkout_data sample_checkout sample_info) =
       Some ''billing''
   \<and> fst (get_dataloaders_for_fetching_checkout_data
            (sample_checkout\<lparr>shipping_address_id := Some 3\<rparr>) sample_info) = Some ''other''
   \<and> fst (get_dataloaders_for_fetching_checkout_data
            (sample_checkout\<lparr>billing_address_id := None\<rparr>) sample_info) = None"
proof -
  have ids: "shipping_address_id sample_checkout \<noteq> Some 0"
      "billing_address_id sample_checkout \<noteq> Some 0"
    by (simp_all add: sample_checkout_def)
  from get_dataloaders_address [of sample_checkout sample_info] ids
  have a: "fst (get_dataloaders_for_fetching_checkout_data sample_checkout sample_info) =
       Some ''billing''"
    by (simp add: sample_checkout_def sample_info_def truthy_def)
  from get_dataloaders_address [of "sample_checkout\<lparr>shipping_address_id := Some 3\<rparr>" sample_info]
  have b: "fst (get_dataloaders_for_fetching_checkout_data
            (sample_checkout\<lparr>shipping_address_id := Some 3\<rparr>) sample_info) = Some ''other''"
    by (simp add: sample_checkout_def sample_info_def truthy_def)
  from get_dataloaders_address [of "sample_checkout\<lparr>billing_address_id := None\<rparr>" sample_info]
  have c: "fst (get_dataloaders_for_fetching_checkout_data
            (sample_checkout\<lparr>billing_address_id := None\<rparr>) sample_info) = None"
    by (simp add: sample_checkout_def sample_info_def truthy_def)
  from ids a b c show ?thesis by simp
qed

subsection \<open>The line price resolvers\<close>

lemma for_line_info_find:
  "for_line_info f root_pk lines =
     map_option f (find (\<lambda>line_info. pk (line line_info) = root_pk) lines)"
  by (induction lines) simp_all

text \<open>
  C6. Each of \<^verbatim>\<open>CheckoutLine.resolve_unit_price\<close>, \<^verbatim>\<open>resolve_total_price\<close>,
  \<^verbatim>\<open>resolve_undiscounted_unit_price\<close> and \<^verbatim>\<open>resolve_undiscounted_total_price\<close>
  prices the first of the loaded lines of the line's checkout whose key is the key of the
  resolved line, and returns \<^verbatim>\<open>None\<close> when no loaded line has that key, although the
  class declares each of the four fields with \<^verbatim>\<open>required=True\<close>. The two resolvers
  under \<^verbatim>\<open>prevent_sync_event_circular_query\<close> do so whenever they are not resolved for
  a synchronous event, where they raise \<^verbatim>\<open>CircularSubscriptionSyncEvent\<close> instead; the
  two undiscounted resolvers do so in every context.
\<close>

theorem line_price_resolvers_first_match:
  fixes checkout_line_unit_price checkout_line_total ::
      "'mgr \<Rightarrow> 'ci \<Rightarrow> CheckoutLineInfo list \<Rightarrow> CheckoutLineInfo \<Rightarrow> TaxedMoney"
    and undiscounted_unit undiscounted_total :: "CheckoutLineInfo \<Rightarrow> 'ch \<Rightarrow> Money"
    and channel :: "'ci \<Rightarrow> 'ch"
    and info :: "('addr, 'ci, 'mgr) ResolveInfo"
  assumes "checkout = CheckoutByTokenLoader info (checkout_id root')"
    and "lines = CheckoutLinesInfoByCheckoutTokenLoader info (token checkout)"
    and "checkout_info = CheckoutInfoByCheckoutTokenLoader info (token checkout)"
    and "manager = get_plugin_manager_promise info"
    and "matching = find (\<lambda>line_info. pk (line line_info) = pk root') lines"
  shows "(\<not> sync_event info \<longrightarrow>
             resolve_unit_price checkout_line_unit_price root' info =
               Inr (map_option (checkout_line_unit_price manager checkout_info lines) matching)
           \<and> resolve_line_total_price checkout_line_total root' info =
               Inr (map_option (checkout_line_total manager checkout_info lines) matching))
       \<and> (sync_event info \<longrightarrow>
             resolve_unit_price checkout_line_unit_price root' info =
               Inl CircularSubscriptionSyncEvent
           \<and> resolve_line_total_price checkout_line_total root' info =
               Inl CircularSubscriptionSyncEvent)
       \<and> resolve_undiscounted_unit_price undiscounted_unit channel root' info =
           map_option (\<lambda>line_info. undiscounted_unit line_info (channel checkout_info)) matching
       \<and> resolve_undiscounted_total_price undiscounted_total channel root' info =
           map_option (\<lambda>line_info. undiscounted_total line_info (channel checkout_info)) matching
       \<and> ((\<forall>line_info \<in> set lines. pk (line line_info) \<noteq> pk root') \<longrightarrow>
             (\<not> sync_event info \<longrightarrow>
                resolve_unit_price checkout_line_unit_price root' info = Inr None
              \<and> resolve_line_total_price checkout_line_total root' info = Inr None)
           \<and> resolve_undiscounted_unit_price undiscounted_unit channel root' info = None
           \<and> resolve_undiscounted_total_price undiscounted_total channel root' info = None)
       \<and> field_required checkout_line_fields ''unit_price''
       \<and> field_required checkout_line_fields ''total_price''
       \<and> field_required checkout_line_fields ''undiscounted_unit_price''
       \<and> field_required checkout_line_fields ''undiscounted_total_price''"
proof -
  have nomatch: "matching = None" if "\<forall>line_info \<in> set lines. pk (line line_info) \<noteq> pk root'"
    using that assms(5) by (simp add: find_None_iff)
  have a: "resolve_unit_price checkout_line_unit_price root' info =
           Inr (map_option (checkout_line_unit_price manager checkout_info lines) matching)"
    if "\<not> sync_event info"
    using that assms
    by (simp add: resolve_unit_price_def prevent_sync_event_circular_query_wrapper_def
        for_line_info_find Let_def)
  have b: "resolve_line_total_price checkout_line_total root' info =
           Inr (map_option (checkout_line_total manager checkout_info lines) matching)"
    if "\<not> sync_event info"
    using that assms
    by (simp add: resolve_line_total_price_def prevent_sync_event_circular_query_wrapper_def
        for_line_info_find Let_def)
  have refused: "resolve_unit_price checkout_line_unit_price root' info =
           Inl CircularSubscriptionSyncEvent"
      "resolve_line_total_price checkout_line_total root' info =
           Inl CircularSubscriptionSyncEvent"
    if "sync_event info"
    using that
    by (simp_all add: resolve_unit_price_def resolve_line_total_price_def
        prevent_sync_event_circular_query_wrapper_def)
  have c: "resolve_undiscounted_unit_price undiscounted_unit channel root' info =
           map_option (\<lambda>line_info. undiscounted_unit line_info (channel checkout_info)) matching"
    using assms by (simp add: resolve_undiscounted_unit_price_def for_line_info_find Let_def)
  have d: "resolve_undiscounted_total_price undiscounted_total channel root' info =
           map_option (\<lambda>line_info. undiscounted_total line_info (channel checkout_info)) matching"
    using assms by (simp add: resolve_undiscounted_total_price_def for_line_info_find Let_def)
  have req: "field_required checkout_line_fields ''unit_price''"
      "field_required checkout_line_fields ''total_price''"
      "field_required checkout_line_fields ''undiscounted_unit_price''"
      "field_required checkout_line_fields ''undiscounted_total_price''"
    by (simp_all add: field_required_def checkout_line_fields_def)
  from a b refused c d req nomatch show ?thesis by simp
qed

lemma sample_loaded_lines:
  "CheckoutLinesInfoByCheckoutTokenLoader sample_info
     (token (CheckoutByTokenLoader sample_info (checkout_id r))) = sample_lines"
  by (simp add: sample_info_def sample_checkout_def)

lemma sample_not_sync: "\<not> sync_event sample_info"
  by (simp add: sample_info_def)

theorem line_price_resolvers_first_match_witness:
  "list_all (\<lambda>line_info. pk (line line_info) \<noteq> pk (sample_line\<lparr>pk := 99\<rparr>)) sample_lines
   \<and> \<not> sync_event sample_info
   \<and> resolve_unit_price sample_line_price (sample_line\<lparr>pk := 99\<rparr>) sample_info = Inr None
   \<and> resolve_undiscounted_total_price sample_undiscounted (\<lambda>checkout_info. ())
        (sample_line\<lparr>pk := 99\<rparr>) sample_info = None
   \<and> resolve_unit_price sample_line_price sample_line sample_info =
        Inr (Some \<lparr>net = usd 12, gross = usd 15\<rparr>)
   \<and> resolve_undiscounted_unit_price sample_undiscounted (\<lambda>checkout_info. ())
        sample_line sample_info = Some (usd 18)
   \<and> sync_event (sample_info\<lparr>sync_event := True\<rparr>)
   \<and> resolve_unit_price sample_line_price sample_line (sample_info\<lparr>sync_event := True\<rparr>) =
        Inl CircularSubscriptionSyncEvent
   \<and> resolve_line_total_price sample_line_price sample_line
        (sample_info\<lparr>sync_event := True\<rparr>) = Inl CircularSubscriptionSyncEvent"
proof -
  let ?absent = "sample_line\<lparr>pk := 99\<rparr>"
  let ?sync = "sample_info\<lparr>sync_event := True\<rparr>"
  have none: "\<forall>line_info \<in> set sample_lines. pk (line line_info) \<noteq> pk ?absent"
    by (simp add: sample_lines_def sample_line_def)
  have found: "find (\<lambda>line_info. pk (line line_info) = pk sample_line) sample_lines =
      Some \<lparr>line = sample_line\<rparr>"
    by (simp add: sample_lines_def sample_line_def)
  have sync: "sync_event ?sync"
    by simp
  note absent = line_price_resolvers_first_match
    [where root' = ?absent and info = sample_info and lines = sample_lines
       and checkout_line_unit_price = sample_line_price
       and checkout_line_total = sample_line_price
       and undiscounted_unit = sample_undiscounted
       and undiscounted_total = sample_undiscounted
       and channel = "\<lambda>checkout_info. ()",
     OF refl sample_loaded_lines [symmetric] refl refl refl]
  note present = line_price_resolvers_first_match
    [where root' = sample_line and info = sample_info and lines = sample_lines
       and checkout_line_unit_price = sample_line_price
       and checkout_line_total = sample_line_price
       and undiscounted_unit = sample_undiscounted
       and undiscounted_total = sample_undiscounted
       and channel = "\<lambda>checkout_info. ()",
     OF refl sample_loaded_lines [symmetric] refl refl refl]
  note refused = line_price_resolvers_first_match
    [where root' = sample_line and info = ?sync
       and checkout_line_unit_price = sample_line_price
       and checkout_line_total = sample_line_price
       and undiscounted_unit = sample_undiscounted
       and undiscounted_total = sample_undiscounted
       and channel = "\<lambda>checkout_info. ()",
     OF refl refl refl refl refl]
  from absent none sample_not_sync
  have a: "resolve_unit_price sample_line_price ?absent sample_info = Inr None"
      "resolve_undiscounted_total_price sample_undiscounted (\<lambda>checkout_info. ())
         ?absent sample_info = None"
    by blast+
  from present sample_not_sync
  have "resolve_unit_price sample_line_price sample_line sample_info =
        Inr (map_option (sample_line_price () () sample_lines)
               (find (\<lambda>line_info. pk (line line_info) = pk sample_line) sample_lines))"
      "resolve_undiscounted_unit_price sample_undiscounted (\<lambda>checkout_info. ())
        sample_line sample_info =
        map_option (\<lambda>line_info. sample_undiscounted line_info ())
          (find (\<lambda>line_info. pk (line line_info) = pk sample_line) sample_lines)"
    by simp_all
  then have p: "resolve_unit_price sample_line_price sample_line sample_info =
        Inr (Some \<lparr>net = usd 12, gross = usd 15\<rparr>)"
      "resolve_undiscounted_unit_price sample_undiscounted (\<lambda>checkout_info. ())
        sample_line sample_info = Some (usd 18)"
    unfolding found
    by (simp_all add: sample_line_price_def sample_undiscounted_def sample_line_def)
  from refused sync
  have r: "resolve_unit_price sample_line_price sample_line ?sync =
        Inl CircularSubscriptionSyncEvent"
      "resolve_line_total_price sample_line_price sample_line ?sync =
        Inl CircularSubscriptionSyncEvent"
    by blast+
  from none sample_not_sync a p sync r show ?thesis by (simp add: list_all_iff)
qed

subsection \<open>Total price and total balance of a checkout\<close>

lemma max_taxed_money_zero:
  "money_currency (gross t) = cur \<Longrightarrow>
   max_taxed_money t (zero_taxed_money cur) =
     Inr (if amount (gross t) < 0 then zero_taxed_money cur else t)"
  by (simp add: max_taxed_money_def taxed_money_lt_def money_lt_def zero_taxed_money_def
      zero_money_def)

lemma total_charged_loop_sum:
  "list_all (\<lambda>t. money_currency (amount_charged t) = money_currency acc
               \<and> money_currency (amount_charge_pending t) = money_currency acc) ts \<Longrightarrow>
   total_charged_loop acc ts =
     Inr \<lparr>amount = amount acc
             + (\<Sum>t \<leftarrow> ts. amount (amount_charged t) + amount (amount_charge_pending t)),
          money_currency = money_currency acc\<rparr>"
proof (induction ts arbitrary: acc)
  case Nil
  then show ?case by simp
next
  case (Cons t ts)
  then show ?case by (simp add: money_add_def add.assoc)
qed

lemma total_charged_loop_amount:
  "total_charged_loop acc ts = Inr m \<Longrightarrow>
   amount m = amount acc
      + (\<Sum>t \<leftarrow> ts. amount (amount_charged t) + amount (amount_charge_pending t))
   \<and> money_currency m = money_currency acc"
proof (induction ts arbitrary: acc)
  case Nil
  then show ?case by simp
next
  case (Cons t ts)
  from Cons.prems obtain a1 a2 where
    a1: "money_add acc (amount_charged t) = Inr a1" and
    a2: "money_add a1 (amount_charge_pending t) = Inr a2" and
    rest: "total_charged_loop a2 ts = Inr m"
    by (auto split: sum.splits)
  from a1 have v1: "amount a1 = amount acc + amount (amount_charged t)"
      "money_currency a1 = money_currency acc"
    by (auto simp: money_add_def split: if_splits)
  from a2 have v2: "amount a2 = amount a1 + amount (amount_charge_pending t)"
      "money_currency a2 = money_currency a1"
    by (auto simp: money_add_def split: if_splits)
  from Cons.IH[OF rest] v1 v2 show ?case by simp
qed

lemma sample_dataloaders:
  "get_dataloaders_for_fetching_checkout_data sample_checkout sample_info =
     (Some ''billing'', sample_lines, (), ())"
  by (simp add: get_dataloaders_for_fetching_checkout_data_def py_or_def truthy_def
      sample_checkout_def sample_info_def)

lemma sample_total_value:
  "sample_total () () sample_lines (Some ''billing'') =
     \<lparr>net = usd (- 10), gross = usd (- 5)\<rparr>"
  by (simp add: sample_total_def calculate_quantity_def py_sum_def sample_lines_def
      sample_line_def)

lemma sample_loaded_transactions:
  "TransactionItemsByCheckoutIDLoader sample_info (checkout_pk sample_checkout) =
     sample_transactions"
  by (simp add: sample_info_def sample_checkout_def)

lemma max_taxed_money_mismatch:
  "money_currency (gross t) \<noteq> cur \<Longrightarrow>
   max_taxed_money t (zero_taxed_money cur) = Inl ValueError"
  by (simp add: max_taxed_money_def taxed_money_lt_def money_lt_def zero_taxed_money_def
      zero_money_def)

lemma get_dataloaders_value:
  "get_dataloaders_for_fetching_checkout_data root' info =
     ((if truthy (shipping_address_id root')
       then map_option (AddressByIdLoader info) (shipping_address_id root')
       else if truthy (billing_address_id root')
       then map_option (AddressByIdLoader info) (billing_address_id root')
       else None),
      CheckoutLinesInfoByCheckoutTokenLoader info (token root'),
      CheckoutInfoByCheckoutTokenLoader info (token root'),
      get_plugin_manager_promise info)"
  by (auto simp: get_dataloaders_for_fetching_checkout_data_def py_or_def truthy_def Let_def
      split: option.splits)

lemma sample_address:
  "(if truthy (shipping_address_id sample_checkout)
    then map_option (AddressByIdLoader sample_info) (shipping_address_id sample_checkout)
    else if truthy (billing_address_id sample_checkout)
    then map_option (AddressByIdLoader sample_info) (billing_address_id sample_checkout)
    else None) = Some ''billing''"
  by (simp add: truthy_def sample_checkout_def sample_info_def)

lemma sample_total_shipped_value:
  "sample_total_shipped () () sample_lines (Some ''billing'') =
     \<lparr>net = usd 22, gross = usd 28\<rparr>"
  by (simp add: sample_total_shipped_def calculate_quantity_def py_sum_def sample_lines_def
      sample_line_def)

lemma sample_engine_input:
  "calc (get_plugin_manager_promise sample_info)
     (CheckoutInfoByCheckoutTokenLoader sample_info (token sample_checkout))
     (CheckoutLinesInfoByCheckoutTokenLoader sample_info (token sample_checkout))
     (Some ''billing'') = calc () () sample_lines (Some ''billing'')"
  by (simp add: sample_info_def sample_checkout_def)

text \<open>
  C1. \<^verbatim>\<open>Checkout.resolve_total_price\<close>, when it is not resolved for a synchronous event
  (where its guard raises \<^verbatim>\<open>CircularSubscriptionSyncEvent\<close>), passes the plugin manager,
  the checkout info and the lines loaded for the checkout's token, and the address
  loaded for the shipping or else the billing address id, to
  \<^verbatim>\<open>calculate_checkout_total_with_gift_cards\<close> and returns the maximum of that total and
  the zero taxed amount in the checkout's currency: the total itself, or the zero taxed
  amount when the gross of the total is below zero. Whatever price it resolves to is
  never below the zero taxed amount: its gross is not negative.
\<close>

theorem resolve_total_price_max:
  fixes calc :: "'mgr \<Rightarrow> 'ci \<Rightarrow> CheckoutLineInfo list \<Rightarrow> 'addr option \<Rightarrow> TaxedMoney"
  assumes "address =
             (if truthy (shipping_address_id root')
              then map_option (AddressByIdLoader info) (shipping_address_id root')
              else if truthy (billing_address_id root')
              then map_option (AddressByIdLoader info) (billing_address_id root')
              else None)"
    and "taxed_total =
           calc (get_plugin_manager_promise info)
             (CheckoutInfoByCheckoutTokenLoader info (token root'))
             (CheckoutLinesInfoByCheckoutTokenLoader info (token root'))
             address"
  shows "(sync_event info \<longrightarrow>
            resolve_total_price calc root' info = Inl CircularSubscriptionSyncEvent)
       \<and> (\<not> sync_event info \<longrightarrow>
            resolve_total_price calc root' info =
              max_taxed_money taxed_total (zero_taxed_money (currency root')))
       \<and> (\<not> sync_event info \<and> money_currency (gross taxed_total) = currency root' \<longrightarrow>
            resolve_total_price calc root' info =
              Inr (if amount (gross taxed_total) < 0 then zero_taxed_money (currency root')
                   else taxed_total))
       \<and> (\<forall>total_price. resolve_total_price calc root' info = Inr total_price \<longrightarrow>
            0 \<le> amount (gross total_price)
          \<and> taxed_money_lt total_price (zero_taxed_money (currency root')) = Inr False
          \<and> total_price =
              (if amount (gross taxed_total) < 0 then zero_taxed_money (currency root')
               else taxed_total))"
proof -
  let ?zero = "zero_taxed_money (currency root')"
  let ?clamped = "if amount (gross taxed_total) < 0 then ?zero else taxed_total"
  have refused: "resolve_total_price calc root' info = Inl CircularSubscriptionSyncEvent"
    if "sync_event info"
    using that
    by (simp add: resolve_total_price_def prevent_sync_event_circular_query_wrapper_def)
  have eq: "resolve_total_price calc root' info = max_taxed_money taxed_total ?zero"
    if "\<not> sync_event info"
    using that assms
    by (simp add: resolve_total_price_def prevent_sync_event_circular_query_wrapper_def
        get_dataloaders_value)
  have clamp: "resolve_total_price calc root' info = Inr ?clamped"
    if "\<not> sync_event info" and "money_currency (gross taxed_total) = currency root'"
    using eq [OF that(1)] max_taxed_money_zero [OF that(2)] by simp
  have nonneg: "0 \<le> amount (gross ?clamped)"
    by (simp add: zero_taxed_money_def zero_money_def)
  have resolved: "0 \<le> amount (gross total_price)
      \<and> taxed_money_lt total_price ?zero = Inr False
      \<and> total_price = ?clamped"
    if r: "resolve_total_price calc root' info = Inr total_price" for total_price
  proof -
    from r refused have ns: "\<not> sync_event info"
      by auto
    from r eq [OF ns] have mx: "max_taxed_money taxed_total ?zero = Inr total_price"
      by simp
    have cur: "money_currency (gross taxed_total) = currency root'"
    proof (rule ccontr)
      assume "money_currency (gross taxed_total) \<noteq> currency root'"
      from max_taxed_money_mismatch [OF this] mx show False
        by simp
    qed
    from mx max_taxed_money_zero [OF cur] have tp: "total_price = ?clamped"
      by simp
    have notlt: "taxed_money_lt ?clamped ?zero = Inr False"
      using cur
      by (simp add: taxed_money_lt_def money_lt_def zero_taxed_money_def zero_money_def)
    from tp nonneg notlt show ?thesis
      by simp
  qed
  from refused eq clamp resolved show ?thesis
    by blast
qed

theorem resolve_total_price_max_witness:
  "\<not> sync_event sample_info
   \<and> money_currency (gross (sample_total_shipped () () sample_lines (Some ''billing''))) =
       currency sample_checkout
   \<and> resolve_total_price sample_total_shipped sample_checkout sample_info =
       Inr \<lparr>net = usd 22, gross = usd 28\<rparr>
   \<and> resolve_total_price sample_total sample_checkout sample_info =
       Inr (zero_taxed_money ''USD'')
   \<and> sync_event (sample_info\<lparr>sync_event := True\<rparr>)
   \<and> resolve_total_price sample_total_shipped sample_checkout
        (sample_info\<lparr>sync_event := True\<rparr>) = Inl CircularSubscriptionSyncEvent"
proof -
  have cur: "money_currency (gross (sample_total_shipped () () sample_lines (Some ''billing''))) =
       currency sample_checkout"
    by (simp add: sample_total_shipped_value usd_def sample_checkout_def)
  have cur2: "money_currency (gross (sample_total () () sample_lines (Some ''billing''))) =
       currency sample_checkout"
    by (simp add: sample_total_value usd_def sample_checkout_def)
  have usd: "currency sample_checkout = ''USD''"
    by (simp add: sample_checkout_def)
  note shipped = resolve_total_price_max
    [where calc = sample_total_shipped and root' = sample_checkout and info = sample_info
       and address = "Some ''billing''"
       and taxed_total = "sample_total_shipped () () sample_lines (Some ''billing'')",
     OF sample_address [symmetric] sample_engine_input [of sample_total_shipped, symmetric]]
  note gift = resolve_total_price_max
    [where calc = sample_total and root' = sample_checkout and info = sample_info
       and address = "Some ''billing''"
       and taxed_total = "sample_total () () sample_lines (Some ''billing'')",
     OF sample_address [symmetric] sample_engine_input [of sample_total, symmetric]]
  note refused = resolve_total_price_max
    [where calc = sample_total_shipped and root' = sample_checkout
       and info = "sample_info\<lparr>sync_event := True\<rparr>",
     OF refl refl]
  from shipped sample_not_sync cur
  have "resolve_total_price sample_total_shipped sample_checkout sample_info =
      Inr (if amount (gross (sample_total_shipped () () sample_lines (Some ''billing''))) < 0
           then zero_taxed_money (currency sample_checkout)
           else sample_total_shipped () () sample_lines (Some ''billing''))"
    by blast
  then have a: "resolve_total_price sample_total_shipped sample_checkout sample_info =
       Inr \<lparr>net = usd 22, gross = usd 28\<rparr>"
    by (simp add: sample_total_shipped_value usd_def)
  from gift sample_not_sync cur2
  have "resolve_total_price sample_total sample_checkout sample_info =
      Inr (if amount (gross (sample_total () () sample_lines (Some ''billing''))) < 0
           then zero_taxed_money (currency sample_checkout)
           else sample_total () () sample_lines (Some ''billing''))"
    by blast
  then have b: "resolve_total_price sample_total sample_checkout sample_info =
       Inr (zero_taxed_money ''USD'')"
    by (simp add: sample_total_value usd_def usd)
  have sync: "sync_event (sample_info\<lparr>sync_event := True\<rparr>)"
    by simp
  from refused sync
  have c: "resolve_total_price sample_total_shipped sample_checkout
        (sample_info\<lparr>sync_event := True\<rparr>) = Inl CircularSubscriptionSyncEvent"
    by blast
  from sample_not_sync cur a b sync c show ?thesis
    by simp
qed

text \<open>
  C2. \<^verbatim>\<open>Checkout.resolve_total_balance\<close>, when the total and the amounts of the
  transactions are in the checkout's currency, returns the sum over the transactions of
  \<^verbatim>\<open>amount_charged\<close> plus \<^verbatim>\<open>amount_charge_pending\<close>, counted up from the zero amount
  in the checkout's currency, minus the gross of the total with gift cards clamped below
  at zero; with no transactions it is zero minus that gross.
\<close>

theorem resolve_total_balance_sum:
  fixes calc :: "'mgr \<Rightarrow> 'ci \<Rightarrow> CheckoutLineInfo list \<Rightarrow> 'addr option \<Rightarrow> TaxedMoney"
  assumes "get_dataloaders_for_fetching_checkout_data root' info =
             (address, lines, checkout_info, manager)"
    and "taxed_total = calc manager checkout_info lines address"
    and "money_currency (gross taxed_total) = currency root'"
    and "transactions = TransactionItemsByCheckoutIDLoader info (checkout_pk root')"
    and "list_all (\<lambda>t. money_currency (amount_charged t) = currency root'
                     \<and> money_currency (amount_charge_pending t) = currency root')
           transactions"
  shows "resolve_total_balance calc root' info =
           Inr \<lparr>amount =
                  (\<Sum>t \<leftarrow> transactions.
                      amount (amount_charged t) + amount (amount_charge_pending t))
                  - max 0 (amount (gross taxed_total)),
                money_currency = currency root'\<rparr>
         \<and> (transactions = [] \<longrightarrow>
              resolve_total_balance calc root' info =
                Inr \<lparr>amount = 0 - max 0 (amount (gross taxed_total)),
                     money_currency = currency root'\<rparr>)"
proof -
  let ?zero = "zero_taxed_money (currency root')"
  let ?total = "if amount (gross taxed_total) < 0 then ?zero else taxed_total"
  have mx: "max_taxed_money taxed_total ?zero = Inr ?total"
    using assms(3) by (rule max_taxed_money_zero)
  have lp: "total_charged_loop (zero_money (currency root')) transactions =
              Inr \<lparr>amount = amount (zero_money (currency root'))
                      + (\<Sum>t \<leftarrow> transactions.
                           amount (amount_charged t) + amount (amount_charge_pending t)),
                   money_currency = money_currency (zero_money (currency root'))\<rparr>"
    by (rule total_charged_loop_sum) (use assms(5) in \<open>simp add: zero_money_def\<close>)
  have gr: "amount (gross ?total) = max 0 (amount (gross taxed_total))"
           "money_currency (gross ?total) = currency root'"
    using assms(3) by (auto simp: zero_taxed_money_def zero_money_def)
  have unfold: "resolve_total_balance calc root' info =
      (case max_taxed_money taxed_total ?zero of
         Inl e \<Rightarrow> Inl e
       | Inr checkout_total \<Rightarrow>
           (case total_charged_loop (zero_money (currency root')) transactions of
              Inl e \<Rightarrow> Inl e
            | Inr total_charged \<Rightarrow> money_sub total_charged (gross checkout_total)))"
    using assms(1,2) unfolding assms(4) by (simp add: resolve_total_balance_def)
  have main: "resolve_total_balance calc root' info =
           Inr \<lparr>amount =
                  (\<Sum>t \<leftarrow> transactions.
                      amount (amount_charged t) + amount (amount_charge_pending t))
                  - max 0 (amount (gross taxed_total)),
                money_currency = currency root'\<rparr>"
    unfolding unfold mx lp using gr by (simp add: money_sub_def zero_money_def)
  then show ?thesis by simp
qed

theorem resolve_total_balance_sum_witness:
  "list_all (\<lambda>t. money_currency (amount_charged t) = currency sample_checkout
               \<and> money_currency (amount_charge_pending t) = currency sample_checkout)
     sample_transactions
   \<and> resolve_total_balance sample_total sample_checkout sample_info = Inr (usd 15)
   \<and> TransactionItemsByCheckoutIDLoader sample_info
        (checkout_pk (sample_checkout\<lparr>checkout_pk := ''unpaid''\<rparr>)) = []
   \<and> resolve_total_balance (\<lambda>manager checkout_info lines address.
         \<lparr>net = usd 10, gross = usd 12\<rparr>)
       (sample_checkout\<lparr>checkout_pk := ''unpaid''\<rparr>) sample_info = Inr (usd (- 12))"
proof -
  have cur: "money_currency (gross (sample_total () () sample_lines (Some ''billing''))) =
     currency sample_checkout"
    by (simp add: sample_total_value usd_def sample_checkout_def)
  have txs: "list_all (\<lambda>t. money_currency (amount_charged t) = currency sample_checkout
               \<and> money_currency (amount_charge_pending t) = currency sample_checkout)
     sample_transactions"
    by (simp add: sample_transactions_def usd_def sample_checkout_def)
  from resolve_total_balance_sum
    [where calc = sample_total
       and taxed_total = "sample_total () () sample_lines (Some ''billing'')",
     OF sample_dataloaders refl cur sample_loaded_transactions [symmetric] txs]
  have a: "resolve_total_balance sample_total sample_checkout sample_info = Inr (usd 15)"
    by (simp add: sample_total_value sample_transactions_def usd_def sample_checkout_def)
  let ?unpaid = "sample_checkout\<lparr>checkout_pk := ''unpaid''\<rparr>"
  have d2: "get_dataloaders_for_fetching_checkout_data ?unpaid sample_info =
     (Some ''billing'', sample_lines, (), ())"
    by (simp add: get_dataloaders_for_fetching_checkout_data_def py_or_def truthy_def
        sample_checkout_def sample_info_def)
  have cur2: "money_currency (gross \<lparr>net = usd 10, gross = usd 12\<rparr>) = currency ?unpaid"
    by (simp add: usd_def sample_checkout_def)
  have none: "TransactionItemsByCheckoutIDLoader sample_info (checkout_pk ?unpaid) = []"
    by (simp add: sample_info_def)
  have txs2: "list_all (\<lambda>t. money_currency (amount_charged t) = currency ?unpaid
               \<and> money_currency (amount_charge_pending t) = currency ?unpaid) []"
    by simp
  from resolve_total_balance_sum
    [where calc = "\<lambda>manager checkout_info lines address. \<lparr>net = usd 10, gross = usd 12\<rparr>"
       and taxed_total = "\<lparr>net = usd 10, gross = usd 12\<rparr>",
     OF d2 refl cur2 none [symmetric] txs2]
  have b: "resolve_total_balance (\<lambda>manager checkout_info lines address.
         \<lparr>net = usd 10, gross = usd 12\<rparr>) ?unpaid sample_info = Inr (usd (- 12))"
    by (simp add: usd_def sample_checkout_def)
  from txs a none b show ?thesis by simp
qed

text \<open>
  C4. \<^verbatim>\<open>Checkout.resolve_total_balance\<close> computes the same checkout total as
  \<^verbatim>\<open>Checkout.resolve_total_price\<close>, the maximum of the total with gift cards and the
  zero taxed amount. Whenever the total price resolves, the balance is the charged and
  pending sum of the transactions minus the gross of the resolved total price; and
  outside a synchronous event, where only the guarded total price is refused, the
  balance fails where the total price fails.
\<close>

theorem total_balance_from_total_price:
  fixes calc :: "'mgr \<Rightarrow> 'ci \<Rightarrow> CheckoutLineInfo list \<Rightarrow> 'addr option \<Rightarrow> TaxedMoney"
  shows "(\<forall>total_price.
         resolve_total_price calc root' info = Inr total_price
         \<longrightarrow> resolve_total_balance calc root' info =
               (case total_charged_loop (zero_money (currency root'))
                       (TransactionItemsByCheckoutIDLoader info (checkout_pk root')) of
                  Inl e \<Rightarrow> Inl e
                | Inr total_charged \<Rightarrow> money_sub total_charged (gross total_price)))
   \<and> (\<forall>total_price total_balance.
         resolve_total_price calc root' info = Inr total_price
         \<and> resolve_total_balance calc root' info = Inr total_balance
         \<longrightarrow> amount total_balance =
               (\<Sum>t \<leftarrow> TransactionItemsByCheckoutIDLoader info (checkout_pk root').
                   amount (amount_charged t) + amount (amount_charge_pending t))
               - amount (gross total_price))
   \<and> (\<not> sync_event info \<longrightarrow>
         resolve_total_balance calc root' info =
           (case resolve_total_price calc root' info of
              Inl e \<Rightarrow> Inl e
            | Inr total_price \<Rightarrow>
                (case total_charged_loop (zero_money (currency root'))
                        (TransactionItemsByCheckoutIDLoader info (checkout_pk root')) of
                   Inl e \<Rightarrow> Inl e
                 | Inr total_charged \<Rightarrow> money_sub total_charged (gross total_price))))"
proof -
  let ?charged = "total_charged_loop (zero_money (currency root'))
                    (TransactionItemsByCheckoutIDLoader info (checkout_pk root'))"
  have eq: "resolve_total_balance calc root' info =
     (case resolve_total_price calc root' info of
        Inl e \<Rightarrow> Inl e
      | Inr total_price \<Rightarrow>
          (case ?charged of
             Inl e \<Rightarrow> Inl e
           | Inr total_charged \<Rightarrow> money_sub total_charged (gross total_price)))"
    if "\<not> sync_event info"
    using that
    by (simp add: resolve_total_balance_def resolve_total_price_def
        prevent_sync_event_circular_query_wrapper_def split: prod.splits)
  have ns: "\<not> sync_event info"
    if "resolve_total_price calc root' info = Inr total_price" for total_price
    using that
    by (auto simp: resolve_total_price_def prevent_sync_event_circular_query_wrapper_def
        split: if_splits)
  have bal: "resolve_total_balance calc root' info =
       (case ?charged of
          Inl e \<Rightarrow> Inl e
        | Inr total_charged \<Rightarrow> money_sub total_charged (gross total_price))"
    if p: "resolve_total_price calc root' info = Inr total_price" for total_price
    using eq [OF ns [OF p]] p by simp
  have rel: "amount total_balance =
               (\<Sum>t \<leftarrow> TransactionItemsByCheckoutIDLoader info (checkout_pk root').
                   amount (amount_charged t) + amount (amount_charge_pending t))
               - amount (gross total_price)"
    if p: "resolve_total_price calc root' info = Inr total_price"
      and b: "resolve_total_balance calc root' info = Inr total_balance"
    for total_price total_balance
  proof -
    from b bal [OF p] obtain charged where
      c: "?charged = Inr charged"
      and s: "money_sub charged (gross total_price) = Inr total_balance"
      by (auto split: sum.splits)
    from total_charged_loop_amount [OF c]
    have "amount charged =
            (\<Sum>t \<leftarrow> TransactionItemsByCheckoutIDLoader info (checkout_pk root').
                amount (amount_charged t) + amount (amount_charge_pending t))"
      by (simp add: zero_money_def)
    moreover from s have "amount total_balance = amount charged - amount (gross total_price)"
      by (auto simp: money_sub_def split: if_splits)
    ultimately show ?thesis by simp
  qed
  from eq bal rel show ?thesis by blast
qed

lemma sample_shipped_price:
  "resolve_total_price sample_total_shipped sample_checkout sample_info =
     Inr \<lparr>net = usd 22, gross = usd 28\<rparr>"
  unfolding resolve_total_price_def prevent_sync_event_circular_query_wrapper_def
    sample_dataloaders
  by (simp add: sample_not_sync sample_total_shipped_value max_taxed_money_def
      taxed_money_lt_def money_lt_def zero_taxed_money_def zero_money_def usd_def
      sample_checkout_def)

lemma sample_shipped_balance:
  "resolve_total_balance sample_total_shipped sample_checkout sample_info =
     Inr (usd (- 13))"
  unfolding resolve_total_balance_def sample_dataloaders sample_loaded_transactions
  by (simp add: sample_total_shipped_value sample_transactions_def money_add_def
      money_sub_def max_taxed_money_def taxed_money_lt_def money_lt_def zero_taxed_money_def
      zero_money_def usd_def sample_checkout_def)

theorem total_balance_from_total_price_witness:
  "\<not> sync_event sample_info
   \<and> resolve_total_price sample_total_shipped sample_checkout sample_info =
       Inr \<lparr>net = usd 22, gross = usd 28\<rparr>
   \<and> resolve_total_balance sample_total_shipped sample_checkout sample_info =
       Inr (usd (- 13))
   \<and> amount (usd (- 13)) =
       (\<Sum>t \<leftarrow> sample_transactions.
           amount (amount_charged t) + amount (amount_charge_pending t))
       - amount (gross \<lparr>net = usd 22, gross = usd 28\<rparr>)"
proof -
  from total_balance_from_total_price [of sample_total_shipped sample_checkout sample_info]
    sample_shipped_price sample_shipped_balance
  have "amount (usd (- 13)) =
       (\<Sum>t \<leftarrow> TransactionItemsByCheckoutIDLoader sample_info (checkout_pk sample_checkout).
           amount (amount_charged t) + amount (amount_charge_pending t))
       - amount (gross \<lparr>net = usd 22, gross = usd 28\<rparr>)"
    by blast
  with sample_not_sync sample_shipped_price sample_shipped_balance show ?thesis
    by (simp add: sample_loaded_transactions)
qed

subsection \<open>The guard against circular synchronous events\<close>

text \<open>
  C3. Of the ten resolvers listed as guarded by \<^verbatim>\<open>prevent_sync_event_circular_query\<close>,
  eight carry the decorator. \<^verbatim>\<open>Checkout.resolve_authorize_status\<close> and
  \<^verbatim>\<open>Checkout.resolve_charge_status\<close> are declared with \<^verbatim>\<open>@classmethod\<close> alone, and
  both call \<^verbatim>\<open>fetch_checkout_data\<close>.
\<close>

theorem status_resolvers_not_guarded:
  "\<not> guarded Checkout_resolve_authorize_status
   \<and> \<not> guarded Checkout_resolve_charge_status
   \<and> engine_calls Checkout_resolve_authorize_status = [calculations_fetch_checkout_data]
   \<and> engine_calls Checkout_resolve_charge_status = [calculations_fetch_checkout_data]
   \<and> filter guarded listed_resolvers =
       [CheckoutLine_resolve_unit_price,
        CheckoutLine_resolve_total_price,
        Checkout_resolve_total_price,
        Checkout_resolve_subtotal_price,
        Checkout_resolve_shipping_price,
        Checkout_resolve_shipping_methods,
        Checkout_resolve_available_shipping_methods,
        Checkout_resolve_available_payment_gateways]"
  by (simp add: guarded_def listed_resolvers_def)

subsection \<open>Confirming a change of e-mail\<close>

lemma find_map_saved:
  "find (\<lambda>u. user_pk u = r) us = Some u \<Longrightarrow> user_pk s = r \<Longrightarrow>
   find (\<lambda>u. user_pk u = r) (map (\<lambda>v. if user_pk v = r then s else v) us) = Some s"
  by (induction us) (auto split: if_splits)

lemma sample_requester:
  "find (\<lambda>u. user_pk u = 1) (users sample_database) = Some customer_user"
  by (simp add: sample_database_def customer_user_def)

text \<open>
  C7. When \<^verbatim>\<open>confirmEmailChange\<close> is called with a token, still valid and made for the
  requesting user, whose new e-mail is the e-mail of another user, the response has no
  user and the single error with code \<^verbatim>\<open>UNIQUE\<close>, field \<^verbatim>\<open>newEmail\<close> and message
  \<^verbatim>\<open>Email is used by other user.\<close>; the database, and with it the e-mail of the
  requesting user, is unchanged.
\<close>

theorem confirm_email_change_existing_email:
  assumes "jwt_decode now tok = Some p"
    and "find (\<lambda>u. user_pk u = requester) (users db) = Some u"
    and "payload_user_pk p = requester"
    and "old_email p = email u"
    and "email_used_by_other_user (users db) requester (new_email p)"
  shows "confirm_email_change db requester now tok =
           Some (\<lparr>user = None,
                  errors = [\<lparr>code = ''UNIQUE'', message = ''Email is used by other user.'',
                             field = ''newEmail''\<rparr>]\<rparr>, db)
         \<and> map_option email (find (\<lambda>u. user_pk u = requester) (users db)) =
             Some (old_email p)"
  using assms by (simp add: confirm_email_change_def unique_email_error_def)

theorem confirm_email_change_existing_email_witness:
  "confirm_email_change sample_database 1 200 token_existing_email =
     Some (\<lparr>user = None,
            errors = [\<lparr>code = ''UNIQUE'', message = ''Email is used by other user.'',
                       field = ''newEmail''\<rparr>]\<rparr>, sample_database)
   \<and> map_option email (find (\<lambda>u. user_pk u = 1) (users sample_database)) =
       Some ''customer@example.com''"
proof -
  let ?p = "\<lparr>old_email = ''customer@example.com'', new_email = ''staff@example.com'',
             payload_user_pk = 1\<rparr>"
  have dec: "jwt_decode 200 token_existing_email = Some ?p"
    by (simp add: jwt_decode_def token_existing_email_def create_token_def)
  have pk: "payload_user_pk ?p = 1" by simp
  have old: "old_email ?p = email customer_user" by (simp add: customer_user_def)
  have used: "email_used_by_other_user (users sample_database) 1 (new_email ?p)"
    by (simp add: email_used_by_other_user_def sample_database_def customer_user_def
        staff_user_def)
  from confirm_email_change_existing_email [OF dec sample_requester pk old used]
  show ?thesis by simp
qed

text \<open>
  C8. When \<^verbatim>\<open>confirmEmailChange\<close> is called with a token, still valid and carrying the
  old e-mail, a new e-mail that no other user has and the key of the requesting user, the
  response holds the user with the new e-mail and no error, the stored user is that
  user, the new e-mail is part of the stored search document, and each of
  \<^verbatim>\<open>assign_user_gift_cards\<close> and \<^verbatim>\<open>match_orders_with_new_user\<close> gets exactly one more
  call, with that user.
\<close>

theorem confirm_email_change_updates_email:
  assumes "jwt_decode now tok = Some p"
    and "find (\<lambda>u. user_pk u = requester) (users db) = Some u"
    and "payload_user_pk p = requester"
    and "old_email p = email u"
    and "\<not> email_used_by_other_user (users db) requester (new_email p)"
  shows "\<exists>saved db'.
           confirm_email_change db requester now tok =
             Some (\<lparr>user = Some saved, errors = []\<rparr>, db')
         \<and> email saved = new_email p
         \<and> user_pk saved = requester
         \<and> find (\<lambda>u. user_pk u = requester) (users db') = Some saved
         \<and> sublist (new_email p) (search_document saved)
         \<and> assign_user_gift_cards_calls db' = assign_user_gift_cards_calls db @ [saved]
         \<and> match_orders_with_new_user_calls db' =
             match_orders_with_new_user_calls db @ [saved]"
proof -
  define changed where "changed = u\<lparr>email := new_email p\<rparr>"
  define saved where
    "saved = changed\<lparr>search_document := prepare_user_search_document_value changed\<rparr>"
  define db' where
    "db' = db\<lparr>users := map (\<lambda>v. if user_pk v = requester then saved else v) (users db),
              assign_user_gift_cards_calls := assign_user_gift_cards_calls db @ [saved],
              match_orders_with_new_user_calls :=
                match_orders_with_new_user_calls db @ [saved]\<rparr>"
  from assms(2) have upk: "user_pk u = requester"
    by (auto dest: find_Some_iff [THEN iffD1])
  have res: "confirm_email_change db requester now tok =
      Some (\<lparr>user = Some saved, errors = []\<rparr>, db')"
    using assms by (simp add: confirm_email_change_def Let_def saved_def changed_def db'_def)
  have em: "email saved = new_email p"
    by (simp add: saved_def changed_def)
  have spk: "user_pk saved = requester"
    using upk by (simp add: saved_def changed_def)
  have stored: "find (\<lambda>u. user_pk u = requester) (users db') = Some saved"
    using find_map_saved [OF assms(2) spk] by (simp add: db'_def)
  have "search_document saved =
      [] @ new_email p @ ([CHR 0x0A] @ first_name u @ [CHR 0x0A] @ last_name u @ [CHR 0x0A])"
    by (simp add: saved_def changed_def prepare_user_search_document_value_def)
  then have doc: "sublist (new_email p) (search_document saved)"
    unfolding sublist_def by blast
  have calls: "assign_user_gift_cards_calls db' = assign_user_gift_cards_calls db @ [saved]"
      "match_orders_with_new_user_calls db' = match_orders_with_new_user_calls db @ [saved]"
    by (simp_all add: db'_def)
  from res em spk stored doc calls show ?thesis by blast
qed

theorem confirm_email_change_updates_email_witness:
  "\<exists>saved db'.
     confirm_email_change sample_database 1 200 token_new_email =
       Some (\<lparr>user = Some saved, errors = []\<rparr>, db')
   \<and> email saved = ''new_email@example.com''
   \<and> user_pk saved = 1
   \<and> find (\<lambda>u. user_pk u = 1) (users db') = Some saved
   \<and> sublist ''new_email@example.com'' (search_document saved)
   \<and> assign_user_gift_cards_calls db' = [saved]
   \<and> match_orders_with_new_user_calls db' = [saved]"
proof -
  let ?p = "\<lparr>old_email = ''customer@example.com'', new_email = ''new_email@example.com'',
             payload_user_pk = 1\<rparr>"
  have dec: "jwt_decode 200 token_new_email = Some ?p"
    by (simp add: jwt_decode_def token_new_email_def create_token_def)
  have pk: "payload_user_pk ?p = 1" by simp
  have old: "old_email ?p = email customer_user" by (simp add: customer_user_def)
  have free: "\<not> email_used_by_other_user (users sample_database) 1 (new_email ?p)"
    by (simp add: email_used_by_other_user_def sample_database_def customer_user_def
        staff_user_def)
  from confirm_email_change_updates_email [OF dec sample_requester pk old free]
  show ?thesis by (simp add: sample_database_def)
qed

end
